theory Spec2Isabelle
  imports Complex_Main "HOL-Library.AList"
begin

section \<open>The task facility of core/thread\_manager.py\<close>

text \<open>
  The module has two execution lanes. A task submitted with \<open>use_qthread=True\<close> runs in a
  \<open>WorkerThread\<close> of its own; any other task is handed to a \<open>ThreadPoolExecutor\<close>, which
  runs \<open>ThreadManager._execute_task\<close> in one of its threads. Both lanes report through the
  four signals of \<open>ThreadManager\<close>. The embedding keeps the signals that were emitted as a
  list, oldest first.
\<close>

subsection \<open>Values, results, signals\<close>

type_synonym task_id = string

text \<open>The values a callable receives and returns are opaque to the facility.\<close>

datatype pyval = PyNone | PyBool bool | PyInt int | PyStr string

text \<open>
  \<open>TaskResult\<close>: \<open>result\<close> and \<open>error\<close> default to Python's \<open>None\<close>. The \<open>timestamp\<close>
  field (a wall-clock float that nothing in the module reads) is left out.
\<close>

record TaskResult =
  task_id :: task_id
  success :: bool
  result :: pyval
  error :: "string option"

definition TaskResult :: "task_id \<Rightarrow> bool \<Rightarrow> pyval \<Rightarrow> string option \<Rightarrow> TaskResult" where
  "TaskResult tid ok r e = \<lparr>task_id = tid, success = ok, result = r, error = e\<rparr>"

text \<open>
  The signals of \<open>ThreadManager\<close>. The three signals of a \<open>WorkerThread\<close> are connected
  one to one to \<open>task_progress\<close>, \<open>task_status\<close> and \<open>task_completed\<close> in \<open>submit_task\<close>,
  so a worker's \<open>emit\<close> is recorded as the manager's signal.
\<close>

datatype signal =
    task_started task_id
  | task_progress task_id int
  | task_status task_id string
  | task_completed TaskResult

subsection \<open>The callable\<close>

text \<open>
  What the facility can observe of a callable: while it runs it may invoke
  \<open>kwargs['progress_callback']\<close> and \<open>kwargs['status_callback']\<close>, and another thread may
  ask for the task's cancellation; then the callable returns a value or raises an
  \<open>Exception\<close>, of which the handlers use \<open>str(e)\<close> only.
\<close>

datatype during =
    Call_progress int
  | Call_status string
  | Cancel_requested

datatype outcome = Returns pyval | Raises string

record func =
  body :: "during list"
  outcome :: outcome

text \<open>
  A keyword argument is the caller's own value or one of the callbacks that the lane
  puts in.
\<close>

datatype kwarg = Caller pyval | Injected_progress | Injected_status

type_synonym kwargs = "string \<rightharpoonup> kwarg"

subsection \<open>The dedicated lane: WorkerThread\<close>

record WorkerThread =
  w_task_id :: task_id
  w_func :: func
  w_args :: "pyval list"
  w_kwargs :: kwargs
  is_cancelled :: bool

definition WorkerThread_init :: "task_id \<Rightarrow> func \<Rightarrow> pyval list \<Rightarrow> kwargs \<Rightarrow> WorkerThread" where
  "WorkerThread_init tid f as kw =
     \<lparr>w_task_id = tid, w_func = f, w_args = as, w_kwargs = kw, is_cancelled = False\<rparr>"

definition WorkerThread_progress_callback :: "WorkerThread \<Rightarrow> int \<Rightarrow> signal list" where
  "WorkerThread_progress_callback w p =
     (if \<not> is_cancelled w then [task_progress (w_task_id w) p] else [])"

definition WorkerThread_status_callback :: "WorkerThread \<Rightarrow> string \<Rightarrow> signal list" where
  "WorkerThread_status_callback w s =
     (if \<not> is_cancelled w then [task_status (w_task_id w) s] else [])"

definition WorkerThread_cancel :: "WorkerThread \<Rightarrow> WorkerThread \<times> signal list" where
  "WorkerThread_cancel w =
     (w\<lparr>is_cancelled := True\<rparr>, [task_status (w_task_id w) ''Cancelado''])"

text \<open>
  The two guarded assignments at the head of \<open>run\<close> (and of \<open>_execute_task\<close>): a callback
  is put in only under a name the caller has not used.
\<close>

definition inject_callbacks :: "kwargs \<Rightarrow> kwargs" where
  "inject_callbacks kw =
     (let kw1 = (if ''progress_callback'' \<notin> dom kw
                 then kw(''progress_callback'' \<mapsto> Injected_progress) else kw)
      in if ''status_callback'' \<notin> dom kw1
         then kw1(''status_callback'' \<mapsto> Injected_status) else kw1)"

text \<open>
  One thing happening while the callable runs in a worker. A callback of the caller's own
  emits no signal of the facility.
\<close>

fun worker_during :: "WorkerThread \<Rightarrow> during \<Rightarrow> WorkerThread \<times> signal list" where
  "worker_during w (Call_progress p) =
     (w, case w_kwargs w ''progress_callback'' of
           Some Injected_progress \<Rightarrow> WorkerThread_progress_callback w p
         | _ \<Rightarrow> [])"
| "worker_during w (Call_status s) =
     (w, case w_kwargs w ''status_callback'' of
           Some Injected_status \<Rightarrow> WorkerThread_status_callback w s
         | _ \<Rightarrow> [])"
| "worker_during w Cancel_requested = WorkerThread_cancel w"

fun worker_body :: "WorkerThread \<Rightarrow> during list \<Rightarrow> WorkerThread \<times> signal list" where
  "worker_body w [] = (w, [])"
| "worker_body w (d # ds) =
     (case worker_during w d of (w1, es1) \<Rightarrow>
        (case worker_body w1 ds of (w2, es2) \<Rightarrow> (w2, es1 @ es2)))"

text \<open>
  The status text of a finished task. A Python string is a sequence of code points; the
  accented i of the Portuguese word is code point 0xED.
\<close>

definition Concluido :: string where
  "Concluido = ''Conclu'' @ [CHR 0xED] @ ''do''"

text \<open>
  \<open>WorkerThread.run\<close> in three parts. \<open>WorkerThread_run_end\<close> is what follows the call of
  the callable: lines 53 to 55 when it returned, the \<open>except\<close> clause when it raised.
  \<open>WorkerThread_run_from\<close> is the method from a point inside the call, with \<open>ds\<close> still to
  happen before the callable ends. \<open>WorkerThread_run\<close> is the whole method: the worker as
  it is when the thread ends, and the signals emitted.
\<close>

definition WorkerThread_run_end :: "WorkerThread \<Rightarrow> signal list" where
  "WorkerThread_run_end w =
     (case outcome (w_func w) of
        Returns r \<Rightarrow>
          (if \<not> is_cancelled w
           then [task_completed (TaskResult (w_task_id w) True r None),
                 task_status (w_task_id w) Concluido]
           else [])
      | Raises e \<Rightarrow>
          [task_completed (TaskResult (w_task_id w) False PyNone (Some e)),
           task_status (w_task_id w) (''Erro: '' @ e)])"

definition WorkerThread_run_from :: "WorkerThread \<Rightarrow> during list \<Rightarrow> WorkerThread \<times> signal list" where
  "WorkerThread_run_from w ds =
     (case worker_body w ds of (w1, es1) \<Rightarrow> (w1, es1 @ WorkerThread_run_end w1))"

definition WorkerThread_run :: "WorkerThread \<Rightarrow> WorkerThread \<times> signal list" where
  "WorkerThread_run w =
     (let es0 = [task_status (w_task_id w) ''Iniciando...''];
          w0 = w\<lparr>w_kwargs := inject_callbacks (w_kwargs w)\<rparr>
      in case WorkerThread_run_from w0 (body (w_func w0)) of (w1, es1) \<Rightarrow> (w1, es0 @ es1))"

subsection \<open>The pooled lane: \_execute\_task\<close>

text \<open>
  The exceptions that leave a method of the module: the callable's own \<open>Exception\<close>
  (re-raised by \<open>_execute_task\<close>), the executor's \<open>RuntimeError\<close> and \<open>ValueError\<close>, and
  the interpreter's \<open>TypeError\<close> and \<open>KeyError\<close>. Each carries its message.
\<close>

datatype exn =
    Exception string
  | RuntimeError string
  | ValueError string
  | TypeError string
  | KeyError string

text \<open>
  The callbacks of the pooled lane are lambdas that emit without a test. There is no
  cancellation flag in this lane: a request to cancel a future that is already running
  is refused by \<open>Future.cancel\<close> and changes nothing.
\<close>

fun pool_during :: "task_id \<Rightarrow> kwargs \<Rightarrow> during \<Rightarrow> signal list" where
  "pool_during tid kw (Call_progress p) =
     (case kw ''progress_callback'' of
        Some Injected_progress \<Rightarrow> [task_progress tid p]
      | _ \<Rightarrow> [])"
| "pool_during tid kw (Call_status s) =
     (case kw ''status_callback'' of
        Some Injected_status \<Rightarrow> [task_status tid s]
      | _ \<Rightarrow> [])"
| "pool_during tid kw Cancel_requested = []"

definition execute_task ::
  "task_id \<Rightarrow> func \<Rightarrow> pyval list \<Rightarrow> kwargs \<Rightarrow> (exn + pyval) \<times> signal list" where
  "execute_task tid f as kw =
     (let es0 = [task_status tid ''Executando...''];
          kw1 = inject_callbacks kw;
          es1 = concat (map (pool_during tid kw1) (body f))
      in case outcome f of
           Returns r \<Rightarrow>
             (Inr r, es0 @ es1 @ [task_completed (TaskResult tid True r None),
                                  task_status tid Concluido])
         | Raises e \<Rightarrow>
             (Inl (Exception e),
              es0 @ es1 @ [task_completed (TaskResult tid False PyNone (Some e)),
                           task_status tid (''Erro: '' @ e)]))"

subsection \<open>Task ids\<close>

text \<open>Python's \<open>str\<close> of an integer, as the f-string of \<open>submit_task\<close> formats it.\<close>

definition digit_char :: "nat \<Rightarrow> char" where
  "digit_char d = ''0123456789'' ! d"

fun str_nat :: "nat \<Rightarrow> string" where
  "str_nat n = (if n < 10 then [digit_char n] else str_nat (n div 10) @ [digit_char (n mod 10)])"

definition str_int :: "int \<Rightarrow> string" where
  "str_int i = (if i < 0 then ''-'' @ str_nat (nat (- i)) else str_nat (nat i))"

text \<open>
  Lines 123 to 128 of \<open>submit_task\<close>: the id made from the counter (already incremented),
  the clock reading \<open>int(time.time())\<close> and the optional name. An empty name is falsy.
\<close>

definition make_task_id :: "nat \<Rightarrow> int \<Rightarrow> string option \<Rightarrow> task_id" where
  "make_task_id counter now task_name =
     (let tid = ''task_'' @ str_nat counter @ ''_'' @ str_int now
      in case task_name of
           None \<Rightarrow> tid
         | Some name \<Rightarrow> (if name \<noteq> [] then name @ ''_'' @ tid else tid))"

subsection \<open>The executor's futures\<close>

text \<open>
  The states of a \<open>concurrent.futures.Future\<close>, and the three of its methods that the
  module and the executor's threads use, as the standard library defines them.
\<close>

datatype future_state = PENDING | RUNNING | CANCELLED | CANCELLED_AND_NOTIFIED | FINISHED

text \<open>
  A work item of the executor: the future returned by \<open>thread_pool.submit\<close> with the call
  \<open>_execute_task(task_id, func, *args, **kwargs)\<close> that it stands for, and the result or
  exception that the executor stores in the future when the call ends.
\<close>

record work_item =
  state :: future_state
  wi_task_id :: task_id
  wi_func :: func
  wi_args :: "pyval list"
  wi_kwargs :: kwargs
  wi_outcome :: "(exn + pyval) option"

definition Future_cancel :: "work_item \<Rightarrow> bool \<times> work_item" where
  "Future_cancel wi =
     (case state wi of
        RUNNING \<Rightarrow> (False, wi)
      | FINISHED \<Rightarrow> (False, wi)
      | CANCELLED \<Rightarrow> (True, wi)
      | CANCELLED_AND_NOTIFIED \<Rightarrow> (True, wi)
      | PENDING \<Rightarrow> (True, wi\<lparr>state := CANCELLED\<rparr>))"

definition Future_done :: "work_item \<Rightarrow> bool" where
  "Future_done wi = (state wi = CANCELLED \<or> state wi = CANCELLED_AND_NOTIFIED \<or> state wi = FINISHED)"

definition set_running_or_notify_cancel :: "work_item \<Rightarrow> bool \<times> work_item" where
  "set_running_or_notify_cancel wi =
     (case state wi of
        CANCELLED \<Rightarrow> (False, wi\<lparr>state := CANCELLED_AND_NOTIFIED\<rparr>)
      | PENDING \<Rightarrow> (True, wi\<lparr>state := RUNNING\<rparr>)
      | _ \<Rightarrow> (False, wi))"

subsection \<open>ThreadManager\<close>

text \<open>
  The two dictionaries are association lists in insertion order, as a Python \<open>dict\<close> keeps
  them. \<open>active_threads\<close> holds the workers themselves, with \<open>QThread.isFinished\<close> beside
  each. \<open>active_futures\<close> holds references to futures: positions in \<open>work_items\<close>, the
  list of the futures the executor has created, which the executor's threads share with
  the dictionary. \<open>emitted\<close> is the list of the signals emitted so far.
\<close>

record ThreadManager =
  max_workers :: int
  thread_pool_shutdown :: bool
  work_items :: "work_item list"
  active_threads :: "(task_id \<times> WorkerThread \<times> bool) list"
  active_futures :: "(task_id \<times> nat) list"
  task_counter :: nat
  cleanup_timer_active :: bool
  emitted :: "signal list"

text \<open>\<open>ThreadPoolExecutor(max_workers=...)\<close> raises for a pool without threads.\<close>

definition ThreadManager_init :: "int \<Rightarrow> exn + ThreadManager" where
  "ThreadManager_init n =
     (if n \<le> 0 then Inl (ValueError ''max_workers must be greater than 0'')
      else Inr \<lparr>max_workers = n, thread_pool_shutdown = False, work_items = [],
                active_threads = [], active_futures = [], task_counter = 0,
                cleanup_timer_active = True, emitted = []\<rparr>)"

text \<open>\<open>ThreadPoolExecutor.submit\<close>: the reference of the new future, or the error.\<close>

definition ThreadPoolExecutor_submit ::
  "ThreadManager \<Rightarrow> task_id \<Rightarrow> func \<Rightarrow> pyval list \<Rightarrow> kwargs \<Rightarrow> exn + (nat \<times> ThreadManager)" where
  "ThreadPoolExecutor_submit m tid f as kw =
     (if thread_pool_shutdown m
      then Inl (RuntimeError ''cannot schedule new futures after shutdown'')
      else Inr (length (work_items m),
                m\<lparr>work_items := work_items m @
                     [\<lparr>state = PENDING, wi_task_id = tid, wi_func = f,
                       wi_args = as, wi_kwargs = kw, wi_outcome = None\<rparr>]\<rparr>))"

text \<open>
  \<open>submit_task\<close>. The counter is incremented and the id formatted under the lock, so the
  two are one step; \<open>now\<close> is the clock reading \<open>int(time.time())\<close>. An exception of the
  \<open>try\<close> block is logged and raised again; the counter keeps its new value.
\<close>

definition submit_task ::
  "ThreadManager \<Rightarrow> func \<Rightarrow> pyval list \<Rightarrow> string option \<Rightarrow> bool \<Rightarrow> kwargs \<Rightarrow> int
   \<Rightarrow> (exn + task_id) \<times> ThreadManager" where
  "submit_task m f as task_name use_qthread kw now =
     (let m1 = m\<lparr>task_counter := task_counter m + 1\<rparr>;
          tid = make_task_id (task_counter m1) now task_name
      in if use_qthread
         then (let worker = WorkerThread_init tid f as kw;
                   m2 = m1\<lparr>active_threads := AList.update tid (worker, False) (active_threads m1)\<rparr>
               in (Inr tid, m2\<lparr>emitted := emitted m2 @ [task_started tid]\<rparr>))
         else (case ThreadPoolExecutor_submit m1 tid f as kw of
                 Inl e \<Rightarrow> (Inl e, m1)
               | Inr (future, m2) \<Rightarrow>
                   (let m3 = m2\<lparr>active_futures := AList.update tid future (active_futures m2)\<rparr>
                    in (Inr tid, m3\<lparr>emitted := emitted m3 @ [task_started tid]\<rparr>))))"

text \<open>\<open>_cleanup_thread\<close>, the handler of a worker's \<open>finished\<close> signal.\<close>

definition cleanup_thread :: "ThreadManager \<Rightarrow> task_id \<Rightarrow> ThreadManager" where
  "cleanup_thread m tid =
     (if tid \<in> fst ` set (active_threads m)
      then m\<lparr>active_threads := AList.delete tid (active_threads m)\<rparr> else m)"

text \<open>
  \<open>_cleanup_finished_tasks\<close>, the handler of the cleanup timer. A reference that points
  at no future is not a state of the program; the test then reads it as not done.
\<close>

definition future_done_at :: "ThreadManager \<Rightarrow> nat \<Rightarrow> bool" where
  "future_done_at m i = (i < length (work_items m) \<and> Future_done (work_items m ! i))"

definition cleanup_finished_tasks :: "ThreadManager \<Rightarrow> ThreadManager" where
  "cleanup_finished_tasks m =
     (let finished_tasks = map fst (filter (\<lambda>(tid, future). future_done_at m future) (active_futures m))
      in m\<lparr>active_futures := fold AList.delete finished_tasks (active_futures m)\<rparr>)"

text \<open>Reading and deleting a key of a dictionary raise \<open>KeyError\<close> when it is missing.\<close>

definition dict_get :: "(task_id \<times> 'v) list \<Rightarrow> task_id \<Rightarrow> exn + 'v" where
  "dict_get d k = (case map_of d k of None \<Rightarrow> Inl (KeyError k) | Some v \<Rightarrow> Inr v)"

definition dict_del :: "(task_id \<times> 'v) list \<Rightarrow> task_id \<Rightarrow> exn + (task_id \<times> 'v) list" where
  "dict_del d k = (if k \<in> fst ` set d then Inr (AList.delete k d) else Inl (KeyError k))"

text \<open>
  \<open>future.cancel()\<close> on the future that a reference points at. A reference that points at
  no future is not a state of the program; it is read as a refusal.
\<close>

definition cancel_future_at :: "ThreadManager \<Rightarrow> nat \<Rightarrow> bool \<times> ThreadManager" where
  "cancel_future_at m i =
     (if i < length (work_items m)
      then (case Future_cancel (work_items m ! i) of
              (cancelled, wi) \<Rightarrow> (cancelled, m\<lparr>work_items := (work_items m)[i := wi]\<rparr>))
      else (False, m))"

text \<open>
  The \<open>try\<close> block of \<open>cancel_task\<close>. \<open>thread.quit()\<close> ends an event loop that \<open>run\<close> never
  enters, and \<open>thread.wait(3000)\<close> returns after three seconds at the latest; neither
  changes the manager.
\<close>

definition cancel_task_try :: "ThreadManager \<Rightarrow> task_id \<Rightarrow> (exn + bool) \<times> ThreadManager" where
  "cancel_task_try m tid =
     (if tid \<in> fst ` set (active_threads m)
      then (case dict_get (active_threads m) tid of
              Inl e \<Rightarrow> (Inl e, m)
            | Inr (thread, fin) \<Rightarrow>
                (case WorkerThread_cancel thread of
                   (thread1, es) \<Rightarrow>
                     (Inr True,
                      m\<lparr>active_threads := AList.update tid (thread1, fin) (active_threads m),
                        emitted := emitted m @ es\<rparr>)))
      else if tid \<in> fst ` set (active_futures m)
      then (case dict_get (active_futures m) tid of
              Inl e \<Rightarrow> (Inl e, m)
            | Inr future \<Rightarrow>
                (case cancel_future_at m future of
                   (cancelled, m1) \<Rightarrow>
                     (if cancelled
                      then (case dict_del (active_futures m1) tid of
                              Inl e \<Rightarrow> (Inl e, m1)
                            | Inr d \<Rightarrow> (Inr cancelled, m1\<lparr>active_futures := d\<rparr>))
                      else (Inr cancelled, m1))))
      else (Inr False, m))"

text \<open>\<open>cancel_task\<close>: the \<open>except\<close> clause logs the exception and returns \<open>False\<close>.\<close>

definition cancel_task :: "ThreadManager \<Rightarrow> task_id \<Rightarrow> bool \<times> ThreadManager" where
  "cancel_task m tid =
     (case cancel_task_try m tid of
        (Inl e, m1) \<Rightarrow> (False, m1)
      | (Inr b, m1) \<Rightarrow> (b, m1))"

definition cancel_all_tasks :: "ThreadManager \<Rightarrow> ThreadManager" where
  "cancel_all_tasks m =
     (let m1 = fold (\<lambda>tid m. snd (cancel_task m tid)) (map fst (active_threads m)) m
      in fold (\<lambda>tid m. snd (cancel_task m tid)) (map fst (active_futures m1)) m1)"

definition get_active_tasks :: "ThreadManager \<Rightarrow> task_id list" where
  "get_active_tasks m = map fst (active_threads m) @ map fst (active_futures m)"

text \<open>\<open>get_task_count\<close>: the values under \<open>'qthreads'\<close>, \<open>'futures'\<close> and \<open>'total'\<close>.\<close>

definition get_task_count :: "ThreadManager \<Rightarrow> nat \<times> nat \<times> nat" where
  "get_task_count m =
     (length (active_threads m), length (active_futures m),
      length (active_threads m) + length (active_futures m))"

subsection \<open>The threads of the executor\<close>

text \<open>
  A thread of the pool that is free takes a work item from the queue and calls
  \<open>set_running_or_notify_cancel\<close>; when that answers \<open>True\<close> it runs the call and stores
  what the call returned or raised in the future, which is then \<open>FINISHED\<close>. The two halves
  are separate steps, so that a running future can be observed. At most \<open>max_workers\<close>
  futures run at a time.
\<close>

definition running_count :: "ThreadManager \<Rightarrow> nat" where
  "running_count m = length (filter (\<lambda>wi. state wi = RUNNING) (work_items m))"

definition executor_start :: "ThreadManager \<Rightarrow> nat \<Rightarrow> ThreadManager" where
  "executor_start m i =
     (if i < length (work_items m) \<and> int (running_count m) < max_workers m
      then m\<lparr>work_items :=
               (work_items m)[i := snd (set_running_or_notify_cancel (work_items m ! i))]\<rparr>
      else m)"

definition executor_finish :: "ThreadManager \<Rightarrow> nat \<Rightarrow> ThreadManager" where
  "executor_finish m i =
     (if i < length (work_items m) \<and> state (work_items m ! i) = RUNNING
      then (let wi = work_items m ! i
            in case execute_task (wi_task_id wi) (wi_func wi) (wi_args wi) (wi_kwargs wi) of
                 (r, es) \<Rightarrow>
                   m\<lparr>work_items := (work_items m)[i := wi\<lparr>state := FINISHED, wi_outcome := Some r\<rparr>],
                     emitted := emitted m @ es\<rparr>)
      else m)"

text \<open>
  \<open>ThreadPoolExecutor.shutdown(wait)\<close> refuses later submissions; the futures already
  queued are still run. With \<open>wait\<close> it joins the threads of the pool, and so returns when
  the running futures have ended and the queue has been worked off in order.
\<close>

definition executor_join :: "ThreadManager \<Rightarrow> ThreadManager" where
  "executor_join m =
     (let m1 = fold (\<lambda>i m. executor_finish m i) [0..<length (work_items m)] m
      in fold (\<lambda>i m. executor_finish (executor_start m i) i) [0..<length (work_items m1)] m1)"

definition ThreadPoolExecutor_shutdown :: "ThreadManager \<Rightarrow> bool \<Rightarrow> ThreadManager" where
  "ThreadPoolExecutor_shutdown m wait =
     (let m1 = m\<lparr>thread_pool_shutdown := True\<rparr>
      in if wait then executor_join m1 else m1)"

subsection \<open>shutdown\<close>

text \<open>
  \<open>shutdown(self, wait, timeout)\<close>. Inside the method the name \<open>wait\<close> is the parameter, a
  \<open>bool\<close>, which hides the function \<open>wait\<close> imported from \<open>concurrent.futures\<close>. When the
  test of line 280 holds, line 282 therefore applies \<open>True\<close> to the futures, and the
  interpreter raises \<open>TypeError\<close>; the lines after it, \<open>thread_pool.shutdown\<close> among them,
  are not reached. The result is the exception that leaves the method, if any, and the
  manager as the method leaves it.
\<close>

definition bool_not_callable :: exn where
  "bool_not_callable = TypeError ([CHR 0x27] @ ''bool'' @ [CHR 0x27] @ '' object is not callable'')"

definition shutdown :: "ThreadManager \<Rightarrow> bool \<Rightarrow> real option \<Rightarrow> exn option \<times> ThreadManager" where
  "shutdown m wait timeout =
     (let m1 = m\<lparr>cleanup_timer_active := False\<rparr>;
          m2 = cancel_all_tasks m1
      in if wait \<and> timeout \<noteq> None \<and> active_futures m2 \<noteq> []
         then (Some bool_not_callable, m2)
         else (None, ThreadPoolExecutor_shutdown m2 wait))"

subsection \<open>Runs of the facility\<close>

text \<open>
  What can happen to a manager, one step at a time: a call of one of its methods, the
  cleanup timer firing, a worker thread running \<open>run\<close> from its first line to its last
  (requests to cancel that arrive meanwhile are part of the callable's \<open>body\<close>), the
  handler of a worker's \<open>finished\<close> signal, and the two steps of an executor thread.
\<close>

datatype op =
    Submit func "pyval list" "string option" bool kwargs int
  | Cancel_task task_id
  | Cancel_all_tasks
  | Timer_fires
  | Thread_runs task_id
  | Thread_finished task_id
  | Executor_starts nat
  | Executor_finishes nat
  | Shutdown bool "real option"

definition timer_fires :: "ThreadManager \<Rightarrow> ThreadManager" where
  "timer_fires m = (if cleanup_timer_active m then cleanup_finished_tasks m else m)"

definition thread_runs :: "ThreadManager \<Rightarrow> task_id \<Rightarrow> ThreadManager" where
  "thread_runs m tid =
     (case map_of (active_threads m) tid of
        Some (w, False) \<Rightarrow>
          (case WorkerThread_run w of
             (w1, es) \<Rightarrow> m\<lparr>active_threads := AList.update tid (w1, True) (active_threads m),
                            emitted := emitted m @ es\<rparr>)
      | _ \<Rightarrow> m)"

definition thread_finished :: "ThreadManager \<Rightarrow> task_id \<Rightarrow> ThreadManager" where
  "thread_finished m tid =
     (case map_of (active_threads m) tid of
        Some (w, True) \<Rightarrow> cleanup_thread m tid
      | _ \<Rightarrow> m)"

fun step :: "ThreadManager \<Rightarrow> op \<Rightarrow> ThreadManager" where
  "step m (Submit f as task_name use_qthread kw now) =
     snd (submit_task m f as task_name use_qthread kw now)"
| "step m (Cancel_task tid) = snd (cancel_task m tid)"
| "step m Cancel_all_tasks = cancel_all_tasks m"
| "step m Timer_fires = timer_fires m"
| "step m (Thread_runs tid) = thread_runs m tid"
| "step m (Thread_finished tid) = thread_finished m tid"
| "step m (Executor_starts i) = executor_start m i"
| "step m (Executor_finishes i) = executor_finish m i"
| "step m (Shutdown wait timeout) = snd (shutdown m wait timeout)"

definition run_ops :: "ThreadManager \<Rightarrow> op list \<Rightarrow> ThreadManager" where
  "run_ops m ops = foldl step m ops"


subsection \<open>The properties of the specification\<close>











text \<open>
  The specification's result of \<open>cancel\<close>: the id had a live record in \<open>m\<close>, and in \<open>m'\<close>,
  the manager after the call, the signal has arrived there: the worker's flag is set, or
  the future is cancelled.
\<close>

definition spec_cancellation_delivered :: "ThreadManager \<Rightarrow> task_id \<Rightarrow> ThreadManager \<Rightarrow> bool" where
  "spec_cancellation_delivered m tid m' =
     (case map_of (active_threads m) tid of
        Some (w, fin) \<Rightarrow>
          (case map_of (active_threads m') tid of
             Some (w', fin') \<Rightarrow> is_cancelled w'
           | None \<Rightarrow> False)
      | None \<Rightarrow>
          (case map_of (active_futures m) tid of
             Some i \<Rightarrow> i < length (work_items m') \<and>
                       (state (work_items m' ! i) = CANCELLED \<or>
                        state (work_items m' ! i) = CANCELLED_AND_NOTIFIED)
           | None \<Rightarrow> False))"





section \<open>Properties\<close>

subsection \<open>What a run of a task emits\<close>












subsection \<open>A worker whose flag is set\<close>






subsection \<open>The arguments of the callable\<close>









subsection \<open>A callable that raises\<close>










subsection \<open>cancel\_task\<close>


lemma in_keys_map_of: "k \<in> fst ` set xs \<longleftrightarrow> map_of xs k \<noteq> None"
  by (simp add: map_of_eq_None_iff)

lemma cancel_future_at_frame:
  "thread_pool_shutdown (snd (cancel_future_at m i)) = thread_pool_shutdown m"
  "task_counter (snd (cancel_future_at m i)) = task_counter m"
  "active_threads (snd (cancel_future_at m i)) = active_threads m"
  "active_futures (snd (cancel_future_at m i)) = active_futures m"
  "emitted (snd (cancel_future_at m i)) = emitted m"
  "max_workers (snd (cancel_future_at m i)) = max_workers m"
  "length (work_items (snd (cancel_future_at m i))) = length (work_items m)"
  by (simp_all add: cancel_future_at_def split: prod.splits)

lemma cancel_task_try_never_raises: "fst (cancel_task_try m tid) \<noteq> Inl e"
proof (cases "tid \<in> fst ` set (active_threads m)")
  case True
  then obtain v where "map_of (active_threads m) tid = Some v"
    by (auto simp: in_keys_map_of)
  with True show ?thesis
    by (cases v) (simp add: cancel_task_try_def dict_get_def WorkerThread_cancel_def)
next
  case False
  show ?thesis
  proof (cases "tid \<in> fst ` set (active_futures m)")
    case True
    then obtain i where i: "map_of (active_futures m) tid = Some i"
      by (auto simp: in_keys_map_of)
    obtain c m1 where c: "cancel_future_at m i = (c, m1)" by (cases "cancel_future_at m i")
    from cancel_future_at_frame(4)[of m i] c have "active_futures m1 = active_futures m" by simp
    with False True i c show ?thesis
      by (simp add: cancel_task_try_def dict_get_def dict_del_def)
  next
    case nf: False
    with False show ?thesis by (simp add: cancel_task_try_def)
  qed
qed

lemma cancel_task_unknown:
  "tid \<notin> set (get_active_tasks m) \<Longrightarrow> cancel_task m tid = (False, m)"
  by (auto simp: get_active_tasks_def cancel_task_def cancel_task_try_def image_iff)

lemma cancel_future_at_result:
  "fst (cancel_future_at m i) =
     (i < length (work_items (snd (cancel_future_at m i))) \<and>
      (state (work_items (snd (cancel_future_at m i)) ! i) = CANCELLED \<or>
       state (work_items (snd (cancel_future_at m i)) ! i) = CANCELLED_AND_NOTIFIED))"
  by (cases "state (work_items m ! i)")
     (auto simp: cancel_future_at_def Future_cancel_def split: prod.splits)

lemma cancel_task_thread:
  assumes "map_of (active_threads m) tid = Some (w, fin)"
  shows "cancel_task m tid =
           (True, m\<lparr>active_threads := AList.update tid (w\<lparr>is_cancelled := True\<rparr>, fin) (active_threads m),
                    emitted := emitted m @ [task_status (w_task_id w) ''Cancelado'']\<rparr>)"
proof -
  from assms have "tid \<in> fst ` set (active_threads m)" by (simp add: in_keys_map_of)
  with assms show ?thesis
    by (simp add: cancel_task_def cancel_task_try_def dict_get_def WorkerThread_cancel_def)
qed

lemma cancel_task_future:
  assumes "map_of (active_threads m) tid = None" "map_of (active_futures m) tid = Some i"
  shows "cancel_task m tid =
           (fst (cancel_future_at m i),
            if fst (cancel_future_at m i)
            then (snd (cancel_future_at m i))\<lparr>active_futures := AList.delete tid (active_futures m)\<rparr>
            else snd (cancel_future_at m i))"
proof -
  from assms have nt: "tid \<notin> fst ` set (active_threads m)" and nf: "tid \<in> fst ` set (active_futures m)"
    by (simp_all add: in_keys_map_of)
  obtain c m1 where c: "cancel_future_at m i = (c, m1)" by (cases "cancel_future_at m i")
  from cancel_future_at_frame(4)[of m i] c have af: "active_futures m1 = active_futures m" by simp
  from nt nf assms c af show ?thesis
    by (simp add: cancel_task_def cancel_task_try_def dict_get_def dict_del_def)
qed

lemma cancel_task_delivered:
  "fst (cancel_task m tid) = spec_cancellation_delivered m tid (snd (cancel_task m tid))"
proof (cases "map_of (active_threads m) tid")
  case (Some v)
  obtain w fin where v: "v = (w, fin)" by (cases v)
  from Some v have t: "map_of (active_threads m) tid = Some (w, fin)" by simp
  show ?thesis
    by (simp add: cancel_task_thread[OF t] spec_cancellation_delivered_def t update_conv')
next
  case None
  show ?thesis
  proof (cases "map_of (active_futures m) tid")
    case (Some i)
    have w: "work_items (if fst (cancel_future_at m i)
          then (snd (cancel_future_at m i))\<lparr>active_futures := AList.delete tid (active_futures m)\<rparr>
          else snd (cancel_future_at m i)) = work_items (snd (cancel_future_at m i))"
      by simp
    show ?thesis
      using cancel_future_at_result[of m i]
      by (simp add: cancel_task_future[OF None Some] spec_cancellation_delivered_def None Some
          del: if_split cong: if_cong)
  next
    case nf: None
    from None nf have "tid \<notin> set (get_active_tasks m)"
      by (simp add: get_active_tasks_def in_keys_map_of)
    with None nf show ?thesis
      by (simp add: cancel_task_unknown spec_cancellation_delivered_def)
  qed
qed

text \<open>
  C7: \<open>cancel_task\<close> never raises: no statement of its \<open>try\<close> block raises, so the
  \<open>except\<close> clause is not even entered. It returns \<open>True\<close> exactly when the cancellation has
  arrived at a live record of the id: the worker registered under the id has its flag
  set, or the future registered under it is cancelled. For an id that is not registered,
  unknown or already removed, it returns \<open>False\<close> and changes nothing.
\<close>

theorem cancel_task_result:
  "(\<forall>e. fst (cancel_task_try m tid) \<noteq> Inl e) \<and>
   fst (cancel_task m tid) = spec_cancellation_delivered m tid (snd (cancel_task m tid)) \<and>
   (tid \<notin> set (get_active_tasks m) \<longrightarrow> cancel_task m tid = (False, m))"
  using cancel_task_try_never_raises[of m tid] cancel_task_delivered[of m tid]
    cancel_task_unknown[of tid m]
  by blast

theorem cancel_task_result_witness:
  "''nope'' \<notin> set (get_active_tasks
      \<lparr>max_workers = 4, thread_pool_shutdown = False, work_items = [],
        active_threads = [], active_futures = [], task_counter = 0,
        cleanup_timer_active = True, emitted = []\<rparr>) \<and>
   cancel_task
      \<lparr>max_workers = 4, thread_pool_shutdown = False, work_items = [],
        active_threads = [], active_futures = [], task_counter = 0,
        cleanup_timer_active = True, emitted = []\<rparr> ''nope''
   = (False,
      \<lparr>max_workers = 4, thread_pool_shutdown = False, work_items = [],
        active_threads = [], active_futures = [], task_counter = 0,
        cleanup_timer_active = True, emitted = []\<rparr>)"
  using cancel_task_result
    [where tid = "''nope''" and m = "\<lparr>max_workers = 4, thread_pool_shutdown = False, work_items = [],
        active_threads = [], active_futures = [], task_counter = 0,
        cleanup_timer_active = True, emitted = []\<rparr>"]
  by (simp add: get_active_tasks_def)

subsection \<open>shutdown\<close>






text \<open>
  C2: the specification asks that \<open>shutdown(wait=True, timeout=T)\<close> always completes and
  releases the pool. The code attempts the bounded wait and misses: with one pooled task
  running, \<open>cancel_all_tasks\<close> cannot cancel its future, the future stays registered, and
  line 282 applies the parameter \<open>wait\<close>, a \<open>bool\<close>, as if it were the function. The call
  ends in \<open>TypeError\<close>, for a timeout of 0 as for one of 10, and the pool has not been shut
  down.
\<close>

theorem shutdown_running_future_raises:
  "(case ThreadManager_init 4 of
      Inr m0 \<Rightarrow>
        (let m = run_ops m0 [Submit \<lparr>body = [], outcome = Returns PyNone\<rparr> [] None False Map.empty 100,
                             Executor_starts 0]
         in map state (work_items m) = [RUNNING] \<and>
            fst (shutdown m True (Some 0)) = Some bool_not_callable \<and>
            \<not> thread_pool_shutdown (snd (shutdown m True (Some 0))) \<and>
            fst (shutdown m True (Some 10)) = Some bool_not_callable)
    | Inl e \<Rightarrow> False)"
  by code_simp




subsection \<open>The list of active tasks\<close>








subsection \<open>Task ids\<close>

text \<open>The equation of \<open>str_nat\<close> is unfolded by hand, one digit at a time.\<close>

declare str_nat.simps [simp del]


















subsection \<open>Runs of the facility: counter and registry\<close>

























subsection \<open>A future cancelled in the queue\<close>













subsection \<open>The registry of a manager that started empty\<close>
































subsection \<open>Completion signals\<close>




end
